theory Spec2Isabelle
  imports Complex_Main
begin

section \<open>Data model\<close>

text \<open>
  The script \<^verbatim>\<open>analyzeYouTubeVideo\<close> talks to the file manager and the model of an
  external SDK. The records below keep the fields the script reads or writes.

  \<^verbatim>\<open>FileState\<close> is an enum declared by the SDK; the script compares a file's state
  with \<^verbatim>\<open>FileState.PROCESSING\<close> and \<^verbatim>\<open>FileState.FAILED\<close> only, so every
  other value the service may report (\<^verbatim>\<open>ACTIVE\<close> among them) takes the same path.
\<close>

datatype FileState = STATE_UNSPECIFIED | PROCESSING | ACTIVE | FAILED

record File =
  name :: string
  displayName :: string
  mimeType :: string
  uri :: string
  state :: FileState

text \<open>
  A thrown value: \<open>Error m\<close> is the script's own \<^verbatim>\<open>new Error(m)\<close>, \<open>SdkError m\<close>
  is whatever an awaited SDK call rejects with.
\<close>

datatype error = Error string | SdkError string

record ListFilesResponse =
  files :: "File list option"

text \<open>\<open>response_file\<close> is the field \<^verbatim>\<open>file\<close> of the upload response.\<close>

record UploadFileResponse =
  response_file :: File

text \<open>The second argument of \<^verbatim>\<open>uploadFile\<close>.\<close>

record FileMetadata =
  md_mimeType :: string
  md_displayName :: string
  md_name :: string

subsection \<open>The generation request\<close>

datatype Part = FileDataPart string string | TextPart string
  \<comment> \<open>\<open>FileDataPart mimeType fileUri\<close> is \<^verbatim>\<open>{fileData: {mimeType, fileUri}}\<close>\<close>

datatype Content = Content string "Part list"
  \<comment> \<open>\<open>Content role parts\<close>\<close>

datatype HarmCategory = HARM_CATEGORY_HARASSMENT

datatype HarmBlockThreshold = BLOCK_MEDIUM_AND_ABOVE

datatype FunctionCallingMode = ANY

datatype Schema =
    STRING
  | NUMBER
  | ARRAY Schema
  | OBJECT "(string \<times> Schema) list" "string list"
  \<comment> \<open>\<open>OBJECT properties required\<close>\<close>

datatype FunctionDeclaration = FunctionDeclaration string Schema string
  \<comment> \<open>\<open>FunctionDeclaration name parameters description\<close>\<close>

record GenerationConfig =
  temperature :: rat
  topK :: nat
  topP :: nat
  maxOutputTokens :: nat

record GenerateContentRequest =
  contents :: "Content list"
  safetySettings :: "(HarmCategory \<times> HarmBlockThreshold) list"
  generationConfig :: GenerationConfig
  toolConfig :: FunctionCallingMode
  tools :: "FunctionDeclaration list list"

datatype json =
    JNull
  | JBool bool
  | JNum rat
  | JStr string
  | JArr "json list"
  | JObj "(string \<times> json) list"

datatype FunctionCall = FunctionCall string json
  \<comment> \<open>\<open>FunctionCall name args\<close>\<close>

record CountTokensResponse =
  totalTokens :: nat

text \<open>
  \<open>functionCalls\<close> is what \<^verbatim>\<open>result.response.functionCalls()\<close> evaluates to: it throws,
  or yields \<^verbatim>\<open>undefined\<close> (\<open>None\<close>), or an array.
\<close>

record GenerateContentResult =
  functionCalls :: "error + FunctionCall list option"

subsection \<open>The external service\<close>

text \<open>
  The answers of the service, one field per SDK call the script makes. \<open>getFile w n\<close>
  answers the fetch that comes after \<open>n\<close> earlier fetches, so that a file can change
  its state between two polls. \<open>Inl\<close> is a rejected promise.
\<close>

record World =
  listFiles :: "error + ListFilesResponse option"
  uploadFile :: "string \<Rightarrow> FileMetadata \<Rightarrow> error + UploadFileResponse"
  getFile :: "nat \<Rightarrow> string \<Rightarrow> error + File"
  countTokens :: "GenerateContentRequest \<Rightarrow> error + CountTokensResponse"
  generateContent :: "GenerateContentRequest \<Rightarrow> error + GenerateContentResult"

subsection \<open>Observable effects\<close>

text \<open>
  What \<^verbatim>\<open>console.log\<close> prints, with the interpolated values as arguments:
  \<open>UploadedFile d u\<close> is \<^verbatim>\<open>Uploaded file ${d} as: ${u}\<close>, \<open>ReadyForInference d u\<close> is
  \<^verbatim>\<open>File ${d} is ready for inference as ${u}\<close>.
\<close>

datatype logline =
    UsingExistingFile File
  | UploadingFile
  | UploadedFile string string
  | ReadyForInference string string
  | TokenCount nat
  | NoFunctionsCalled
  | FunctionsJson "FunctionCall list"

datatype event =
    ListFiles
  | UploadFile string FileMetadata
  | GetFile string
  | CountTokens GenerateContentRequest
  | GenerateContent GenerateContentRequest
  | Sleep nat
  | StdoutWrite string
  | ConsoleLog logline
  | ConsoleError error
  \<comment> \<open>\<open>Sleep ms\<close> is the awaited \<^verbatim>\<open>setTimeout\<close>; \<open>ConsoleError e\<close> is
      \<^verbatim>\<open>console.error("Error generating content:", e)\<close>\<close>

fun isUploadFile :: "event \<Rightarrow> bool" where
  "isUploadFile (UploadFile _ _) = True"
| "isUploadFile _ = False"

fun isGetFile :: "event \<Rightarrow> bool" where
  "isGetFile (GetFile _) = True"
| "isGetFile _ = False"

fun isGenerate :: "event \<Rightarrow> bool" where
  "isGenerate (CountTokens _) = True"
| "isGenerate (GenerateContent _) = True"
| "isGenerate _ = False"

section \<open>The script\<close>

subsection \<open>Lines 29 to 53: reuse a listed file or upload\<close>

text \<open>
  The \<^verbatim>\<open>for\<close> loop of lines 34 to 39 over the listed files; \<open>videoFile\<close> is the
  variable of that name (\<open>None\<close> is \<^verbatim>\<open>undefined\<close>), \<open>tr\<close> the effects so far.
\<close>

fun scanFiles :: "File list \<Rightarrow> File option \<Rightarrow> event list \<Rightarrow> File option \<times> event list" where
  "scanFiles [] videoFile tr = (videoFile, tr)"
| "scanFiles (f # fs) videoFile tr =
     (if name f = ''files/ai-persuasion''
      then scanFiles fs (Some f) (tr @ [ConsoleLog (UsingExistingFile f)])
      else scanFiles fs videoFile tr)"

text \<open>\<^verbatim>\<open>listFilesResponse?.files ?? []\<close>\<close>

definition listedFiles :: "ListFilesResponse option \<Rightarrow> File list" where
  "listedFiles r = (case r of None \<Rightarrow> [] | Some l \<Rightarrow> (case files l of None \<Rightarrow> [] | Some fs \<Rightarrow> fs))"

definition uploadMetadata :: FileMetadata where
  "uploadMetadata =
     \<lparr>md_mimeType = ''video/mp4'', md_displayName = ''AI Persuasion'', md_name = ''ai-persuasion''\<rparr>"

text \<open>
  Every step takes the effects so far and returns its outcome with the effects extended;
  \<open>Inl e\<close> is the exception \<open>e\<close> leaving the step.
\<close>

definition resolveRemoteFile :: "World \<Rightarrow> event list \<Rightarrow> (error + File) \<times> event list" where
  "resolveRemoteFile w tr0 =
     (case listFiles w of
        Inl e \<Rightarrow> (Inl e, tr0 @ [ListFiles])
      | Inr listFilesResponse \<Rightarrow>
          (case scanFiles (listedFiles listFilesResponse) None (tr0 @ [ListFiles]) of
             (Some videoFile, tr) \<Rightarrow> (Inr videoFile, tr)
           | (None, tr) \<Rightarrow>
               (case uploadFile w ''./videos/video.mp4'' uploadMetadata of
                  Inl e \<Rightarrow>
                    (Inl e, tr @ [ConsoleLog UploadingFile,
                                  UploadFile ''./videos/video.mp4'' uploadMetadata])
                | Inr uploadResponse \<Rightarrow>
                    (Inr (response_file uploadResponse),
                     tr @ [ConsoleLog UploadingFile,
                           UploadFile ''./videos/video.mp4'' uploadMetadata,
                           ConsoleLog (UploadedFile (displayName (response_file uploadResponse))
                                                    (uri (response_file uploadResponse)))]))))"

subsection \<open>Lines 55 to 66: wait until the file has left the processing state\<close>

text \<open>One turn of the \<^verbatim>\<open>while\<close> loop: a dot, the 5000 ms timer, one fetch by name.\<close>

definition pollEffects :: "string \<Rightarrow> event list" where
  "pollEffects nm = [StdoutWrite ''.'', Sleep 5000, GetFile nm]"

text \<open>
  The loop of lines 56 to 62. \<open>nm\<close> is \<^verbatim>\<open>videoFile.name\<close>, \<open>file\<close> the loop variable,
  \<open>n\<close> the number of fetches made so far. The loop has no other exit than the state
  test and a rejected fetch, so it is a partial function: \<open>None\<close> is a run that never
  leaves the loop.
\<close>

partial_function (option) pollFile ::
  "World \<Rightarrow> string \<Rightarrow> nat \<Rightarrow> File \<Rightarrow> event list \<Rightarrow> ((error + File) \<times> event list) option" where
  "pollFile w nm n file tr =
     (if state file = PROCESSING
      then (case getFile w n nm of
              Inl e \<Rightarrow> Some (Inl e, tr @ pollEffects nm)
            | Inr file' \<Rightarrow> pollFile w nm (Suc n) file' (tr @ pollEffects nm))
      else Some (Inr file, tr))"

declare pollFile.simps [code]

definition awaitReady ::
  "World \<Rightarrow> File \<Rightarrow> event list \<Rightarrow> ((error + File) \<times> event list) option" where
  "awaitReady w videoFile tr0 =
     (case pollFile w (name videoFile) 0 videoFile tr0 of
        None \<Rightarrow> None
      | Some (Inl e, tr) \<Rightarrow> Some (Inl e, tr)
      | Some (Inr file, tr) \<Rightarrow>
          (if state file = FAILED then Some (Inl (Error ''Video processing failed.''), tr)
           else Some (Inr file, tr)))"

subsection \<open>Lines 72 to 200: count tokens, generate, report\<close>

definition functionDeclarations :: "FunctionDeclaration list" where
  "functionDeclarations =
     [FunctionDeclaration ''get_title''
        (OBJECT [(''title'', STRING)] [''title''])
        ''Create a great YouTube title for this video that is less than 6 words'',
      FunctionDeclaration ''get_summary''
        (OBJECT [(''summary'', STRING)] [''summary''])
        ''Summarize this video and create an awesome YouTube description that is less than 100 words'',
      FunctionDeclaration ''get_chapters''
        (OBJECT [(''chapters'',
                  ARRAY (OBJECT [(''timestamp'', NUMBER), (''title'', STRING)]
                                [''timestamp'', ''title'']))]
                [''chapters''])
        ''Extract max 10 video chapters with timestamps and a unique title based on the content of the video'',
      FunctionDeclaration ''get_tags''
        (OBJECT [(''tags'', ARRAY STRING)] [''tags''])
        ''Extract max 10 video tags best for YouTube'',
      FunctionDeclaration ''get_blog''
        (OBJECT [(''blog'', STRING), (''paragraphs'', ARRAY STRING), (''images'', ARRAY STRING)]
                [''blog'', ''paragraphs'', ''images''])
        ''Create at least a 3000+ word blog post in markdown format best for this video including images from the video, in an array of paragraphs and images'']"

text \<open>The object literal of lines 76 to 183; the literal \<^verbatim>\<open>0.2\<close> is kept as the decimal it is written as.\<close>

definition request :: "File \<Rightarrow> GenerateContentRequest" where
  "request videoFile =
     \<lparr>contents =
        [Content ''user''
           [FileDataPart (mimeType videoFile) (uri videoFile),
            TextPart ''Make a YouTube title, description, chapters, tags, and a 1000 word blog post in markdown format best for this video including images from the video.'']],
      safetySettings = [(HARM_CATEGORY_HARASSMENT, BLOCK_MEDIUM_AND_ABOVE)],
      generationConfig = \<lparr>temperature = 2 / 10, topK = 1, topP = 1, maxOutputTokens = 4000\<rparr>,
      toolConfig = ANY,
      tools = [functionDeclarations]\<rparr>"

text \<open>
  The \<^verbatim>\<open>try\<close> block with its \<^verbatim>\<open>catch\<close>. \<^verbatim>\<open>!functions\<close> holds for \<^verbatim>\<open>undefined\<close> only:
  an array is truthy. Both the early \<^verbatim>\<open>return\<close> and the end of the block leave
  the function with \<^verbatim>\<open>undefined\<close>, the unit value here.
\<close>

definition generate :: "World \<Rightarrow> File \<Rightarrow> event list \<Rightarrow> (error + unit) \<times> event list" where
  "generate w videoFile tr0 =
     (case countTokens w (request videoFile) of
        Inl e \<Rightarrow> (Inr (), tr0 @ [CountTokens (request videoFile), ConsoleError e])
      | Inr countResult \<Rightarrow>
          (let tr = tr0 @ [CountTokens (request videoFile),
                           ConsoleLog (TokenCount (totalTokens countResult)),
                           GenerateContent (request videoFile)]
           in case generateContent w (request videoFile) of
                Inl e \<Rightarrow> (Inr (), tr @ [ConsoleError e])
              | Inr result \<Rightarrow>
                  (case functionCalls result of
                     Inl e \<Rightarrow> (Inr (), tr @ [ConsoleError e])
                   | Inr None \<Rightarrow> (Inr (), tr @ [ConsoleLog NoFunctionsCalled])
                   | Inr (Some functions) \<Rightarrow> (Inr (), tr @ [ConsoleLog (FunctionsJson functions)]))))"

subsection \<open>The whole of \<^verbatim>\<open>analyzeYouTubeVideo\<close>\<close>

text \<open>
  Lines 55 to 200, for the \<open>videoFile\<close> that lines 29 to 53 settled on. \<open>None\<close>: the
  promise never settles. \<open>Some (Inl e, tr)\<close>: it rejects with \<open>e\<close>, which nothing
  handles. \<open>Some (Inr (), tr)\<close>: it resolves and the process exits normally.
  Line 69 logs the polled \<open>file\<close>; the request is built from \<open>videoFile\<close>.
\<close>

definition pollAndGenerate ::
  "World \<Rightarrow> File \<Rightarrow> event list \<Rightarrow> ((error + unit) \<times> event list) option" where
  "pollAndGenerate w videoFile tr =
     (case awaitReady w videoFile tr of
        None \<Rightarrow> None
      | Some (Inl e, tr') \<Rightarrow> Some (Inl e, tr')
      | Some (Inr file, tr') \<Rightarrow>
          Some (generate w videoFile
                  (tr' @ [ConsoleLog (ReadyForInference (displayName file) (uri file))])))"

definition analyzeYouTubeVideo :: "World \<Rightarrow> ((error + unit) \<times> event list) option" where
  "analyzeYouTubeVideo w =
     (case resolveRemoteFile w [] of
        (Inl e, tr) \<Rightarrow> Some (Inl e, tr)
      | (Inr videoFile, tr) \<Rightarrow> pollAndGenerate w videoFile tr)"

section \<open>Example services\<close>

definition listedFile :: "FileState \<Rightarrow> File" where
  "listedFile st =
     \<lparr>name = ''files/ai-persuasion'', displayName = ''AI Persuasion'', mimeType = ''video/mp4'',
      uri = ''https://example.test/files/ai-persuasion'', state = st\<rparr>"

definition otherFile :: File where
  "otherFile =
     \<lparr>name = ''files/other'', displayName = ''Other'', mimeType = ''video/webm'',
      uri = ''https://example.test/files/other'', state = ACTIVE\<rparr>"

text \<open>
  A service that lists \<open>fs\<close>, accepts every upload with a file still being processed,
  answers the \<open>n\<close>-th fetch with \<open>fetch n\<close>, counts 7 tokens and answers the generation
  request with \<open>gen\<close>.
\<close>

definition service ::
  "File list \<Rightarrow> (nat \<Rightarrow> error + File) \<Rightarrow> (error + GenerateContentResult) \<Rightarrow> World" where
  "service fs fetch gen =
     \<lparr>listFiles = Inr (Some \<lparr>files = Some fs\<rparr>),
      uploadFile = (\<lambda>path md. Inr \<lparr>response_file = listedFile PROCESSING\<rparr>),
      getFile = (\<lambda>n nm. fetch n),
      countTokens = (\<lambda>r. Inr \<lparr>totalTokens = 7\<rparr>),
      generateContent = (\<lambda>r. gen)\<rparr>"

definition noFunctions :: "error + GenerateContentResult" where
  "noFunctions = Inr \<lparr>functionCalls = Inr None\<rparr>"

text \<open>Fetch answers: processing, then active; processing, then failed; processing for ever.\<close>

definition thenActive :: "nat \<Rightarrow> error + File" where
  "thenActive n = (if n = 0 then Inr (listedFile PROCESSING) else Inr (listedFile ACTIVE))"

definition thenFailed :: "nat \<Rightarrow> error + File" where
  "thenFailed n = (if n = 0 then Inr (listedFile PROCESSING) else Inr (listedFile FAILED))"

definition stillProcessing :: "nat \<Rightarrow> error + File" where
  "stillProcessing n = Inr (listedFile PROCESSING)"

section \<open>Properties of the scan and of the upload decision\<close>

lemma scanFiles_fst:
  "fst (scanFiles fs videoFile tr) =
     (if filter (\<lambda>f. name f = ''files/ai-persuasion'') fs = [] then videoFile
      else Some (last (filter (\<lambda>f. name f = ''files/ai-persuasion'') fs)))"
  by (induction fs arbitrary: videoFile tr) auto

lemma scanFiles_snd:
  "snd (scanFiles fs videoFile tr) =
     tr @ map (\<lambda>f. ConsoleLog (UsingExistingFile f))
              (filter (\<lambda>f. name f = ''files/ai-persuasion'') fs)"
  by (induction fs arbitrary: videoFile tr) auto

lemma scanFiles_eq:
  "scanFiles fs videoFile tr =
     (if filter (\<lambda>f. name f = ''files/ai-persuasion'') fs = [] then videoFile
      else Some (last (filter (\<lambda>f. name f = ''files/ai-persuasion'') fs)),
      tr @ map (\<lambda>f. ConsoleLog (UsingExistingFile f))
               (filter (\<lambda>f. name f = ''files/ai-persuasion'') fs))"
  by (simp only: prod_eq_iff fst_conv snd_conv scanFiles_fst scanFiles_snd simp_thms)

lemma resolve_reuse:
  assumes "listFiles w = Inr r"
    and "filter (\<lambda>f. name f = ''files/ai-persuasion'') (listedFiles r) \<noteq> []"
  shows "resolveRemoteFile w tr0 =
     (Inr (last (filter (\<lambda>f. name f = ''files/ai-persuasion'') (listedFiles r))),
      tr0 @ ListFiles # map (\<lambda>f. ConsoleLog (UsingExistingFile f))
                           (filter (\<lambda>f. name f = ''files/ai-persuasion'') (listedFiles r)))"
  using assms by (simp add: resolveRemoteFile_def scanFiles_eq)

lemma resolve_upload:
  assumes "listFiles w = Inr r"
    and "filter (\<lambda>f. name f = ''files/ai-persuasion'') (listedFiles r) = []"
  shows "resolveRemoteFile w tr0 =
     (case uploadFile w ''./videos/video.mp4'' uploadMetadata of
        Inl e \<Rightarrow>
          (Inl e, tr0 @ [ListFiles, ConsoleLog UploadingFile,
                         UploadFile ''./videos/video.mp4'' uploadMetadata])
      | Inr u \<Rightarrow>
          (Inr (response_file u),
           tr0 @ [ListFiles, ConsoleLog UploadingFile,
                  UploadFile ''./videos/video.mp4'' uploadMetadata,
                  ConsoleLog (UploadedFile (displayName (response_file u))
                                           (uri (response_file u)))]))"
  using assms by (simp add: resolveRemoteFile_def scanFiles_eq split: sum.splits)

lemma filter_map_log [simp]:
  "filter isUploadFile (map (\<lambda>f. ConsoleLog (l f)) fs) = []"
  "filter isGetFile (map (\<lambda>f. ConsoleLog (l f)) fs) = []"
  "filter isGenerate (map (\<lambda>f. ConsoleLog (l f)) fs) = []"
  by (induction fs) auto

lemma resolve_effects:
  "\<exists>es. snd (resolveRemoteFile w tr0) = tr0 @ es \<and> filter isGetFile es = [] \<and> filter isGenerate es = []"
proof (cases "listFiles w")
  case (Inl e)
  then show ?thesis by (simp add: resolveRemoteFile_def)
next
  case (Inr r)
  show ?thesis
  proof (cases "filter (\<lambda>f. name f = ''files/ai-persuasion'') (listedFiles r) = []")
    case True
    show ?thesis
      by (cases "uploadFile w ''./videos/video.mp4'' uploadMetadata")
         (simp_all add: resolve_upload[OF Inr True])
  next
    case False
    show ?thesis by (simp add: resolve_reuse[OF Inr False])
  qed
qed


section \<open>Properties of the polling loop\<close>

lemma pollFile_idle:
  "state fl \<noteq> PROCESSING \<Longrightarrow> pollFile w nm n fl tr = Some (Inr fl, tr)"
  by (simp add: pollFile.simps)

lemma pollFile_diverges:
  assumes run: "pollFile w nm n fl tr = Some y"
  shows "\<not> (state fl = PROCESSING \<and>
            (\<forall>i\<ge>n. \<exists>f. getFile w i nm = Inr f \<and> state f = PROCESSING))"
proof (rule pollFile.raw_induct
    [where P = "\<lambda>w nm n fl tr y. \<not> (state fl = PROCESSING \<and>
                  (\<forall>i\<ge>n. \<exists>f. getFile w i nm = Inr f \<and> state f = PROCESSING))", OF _ run])
  fix pf :: "World \<Rightarrow> string \<Rightarrow> nat \<Rightarrow> File \<Rightarrow> event list \<Rightarrow> ((error + File) \<times> event list) option"
    and w nm n fl tr wa
  assume IH: "\<And>w nm n fl tr y. pf w nm n fl tr = Some y \<Longrightarrow>
     \<not> (state fl = PROCESSING \<and> (\<forall>i\<ge>n. \<exists>f. getFile w i nm = Inr f \<and> state f = PROCESSING))"
  assume body: "(if state fl = PROCESSING
       then case getFile w n nm of Inl e \<Rightarrow> Some (Inl e, tr @ pollEffects nm)
            | Inr file' \<Rightarrow> pf w nm (Suc n) file' (tr @ pollEffects nm)
       else Some (Inr fl, tr)) = Some wa"
  show "\<not> (state fl = PROCESSING \<and> (\<forall>i\<ge>n. \<exists>f. getFile w i nm = Inr f \<and> state f = PROCESSING))"
  proof
    assume a: "state fl = PROCESSING \<and> (\<forall>i\<ge>n. \<exists>f. getFile w i nm = Inr f \<and> state f = PROCESSING)"
    then obtain f where f: "getFile w n nm = Inr f" "state f = PROCESSING" by auto
    from a have rest: "\<forall>i\<ge>Suc n. \<exists>f. getFile w i nm = Inr f \<and> state f = PROCESSING" by auto
    from a have st: "state fl = PROCESSING" by blast
    from body have "pf w nm (Suc n) f (tr @ pollEffects nm) = Some wa"
      by (simp only: st f(1) if_True sum.case simp_thms)
    from IH[OF this] f(2) rest show False by blast
  qed
qed

lemma pollFile_stops:
  "state fl = PROCESSING \<Longrightarrow>
   (\<forall>i<k. \<exists>f. getFile w (n + i) nm = Inr f \<and> state f = PROCESSING) \<Longrightarrow>
   getFile w (n + k) nm = Inr g \<Longrightarrow> state g \<noteq> PROCESSING \<Longrightarrow>
   pollFile w nm n fl tr = Some (Inr g, tr @ concat (replicate (Suc k) (pollEffects nm)))"
proof (induction k arbitrary: n fl tr)
  case 0
  then show ?case by (simp add: pollFile.simps)
next
  case (Suc k)
  from Suc.prems(2) obtain f where f: "getFile w n nm = Inr f" "state f = PROCESSING" by force
  have "\<forall>i<k. \<exists>f. getFile w (Suc n + i) nm = Inr f \<and> state f = PROCESSING"
    using Suc.prems(2) by (metis add_Suc_shift Suc_less_eq)
  moreover have "getFile w (Suc n + k) nm = Inr g" using Suc.prems(3) by simp
  ultimately have "pollFile w nm (Suc n) f (tr @ pollEffects nm) =
      Some (Inr g, (tr @ pollEffects nm) @ concat (replicate (Suc k) (pollEffects nm)))"
    using Suc.IH[of f "Suc n"] f Suc.prems(4) by blast
  then show ?case using f Suc.prems(1) by (subst pollFile.simps) simp
qed

lemma pollFile_rejects:
  "state fl = PROCESSING \<Longrightarrow>
   (\<forall>i<k. \<exists>f. getFile w (n + i) nm = Inr f \<and> state f = PROCESSING) \<Longrightarrow>
   getFile w (n + k) nm = Inl e \<Longrightarrow>
   pollFile w nm n fl tr = Some (Inl e, tr @ concat (replicate (Suc k) (pollEffects nm)))"
proof (induction k arbitrary: n fl tr)
  case 0
  then show ?case by (simp add: pollFile.simps)
next
  case (Suc k)
  from Suc.prems(2) obtain f where f: "getFile w n nm = Inr f" "state f = PROCESSING" by force
  have "\<forall>i<k. \<exists>f. getFile w (Suc n + i) nm = Inr f \<and> state f = PROCESSING"
    using Suc.prems(2) by (metis add_Suc_shift Suc_less_eq)
  moreover have "getFile w (Suc n + k) nm = Inl e" using Suc.prems(3) by simp
  ultimately have "pollFile w nm (Suc n) f (tr @ pollEffects nm) =
      Some (Inl e, (tr @ pollEffects nm) @ concat (replicate (Suc k) (pollEffects nm)))"
    using Suc.IH[of f "Suc n"] f by blast
  then show ?case using f Suc.prems(1) by (subst pollFile.simps) simp
qed

text \<open>Every run of the loop that ends is one of the three runs above.\<close>

lemma pollFile_Some_cases:
  assumes run: "pollFile w nm n fl tr = Some (res, tr')"
  shows "(state fl \<noteq> PROCESSING \<and> res = Inr fl \<and> tr' = tr) \<or>
         (state fl = PROCESSING \<and>
          (\<exists>k. (\<forall>i<k. \<exists>f. getFile w (n + i) nm = Inr f \<and> state f = PROCESSING) \<and>
               tr' = tr @ concat (replicate (Suc k) (pollEffects nm)) \<and>
               ((\<exists>g. getFile w (n + k) nm = Inr g \<and> state g \<noteq> PROCESSING \<and> res = Inr g) \<or>
                (\<exists>e. getFile w (n + k) nm = Inl e \<and> res = Inl e))))"
proof (cases "state fl = PROCESSING")
  case False
  with run show ?thesis by (simp add: pollFile_idle)
next
  case True
  define Q where "Q i \<longleftrightarrow> \<not> (\<exists>f. getFile w (n + i) nm = Inr f \<and> state f = PROCESSING)" for i
  from pollFile_diverges[OF run] True
  obtain j where j: "j \<ge> n" "\<not> (\<exists>f. getFile w j nm = Inr f \<and> state f = PROCESSING)" by blast
  then have "Q (j - n)" by (simp add: Q_def)
  then obtain k where k: "Q k" "\<forall>i<k. \<not> Q i"
    by (metis exists_least_iff)
  from k(2) have before: "\<forall>i<k. \<exists>f. getFile w (n + i) nm = Inr f \<and> state f = PROCESSING"
    by (simp add: Q_def)
  show ?thesis
  proof (cases "getFile w (n + k) nm")
    case (Inl e)
    from pollFile_rejects[OF True before Inl, of tr] run Inl before True
    show ?thesis by auto
  next
    case (Inr g)
    with k(1) have g: "state g \<noteq> PROCESSING" by (simp add: Q_def)
    from pollFile_stops[OF True before Inr g, of tr] run Inr g before True
    show ?thesis by auto
  qed
qed

lemma awaitReady_Some_cases:
  assumes run: "awaitReady w videoFile tr0 = Some (res, tr)"
  shows "\<exists>k. tr = tr0 @ concat (replicate k (pollEffects (name videoFile))) \<and>
             (k = 0 \<longleftrightarrow> state videoFile \<noteq> PROCESSING) \<and>
             (\<forall>i<k - 1. \<exists>f. getFile w i (name videoFile) = Inr f \<and> state f = PROCESSING) \<and>
             (\<forall>f. res = Inr f \<longrightarrow>
                  state f \<noteq> PROCESSING \<and> state f \<noteq> FAILED \<and>
                  (if k = 0 then f = videoFile else getFile w (k - 1) (name videoFile) = Inr f))"
proof -
  from run obtain res' where
    poll: "pollFile w (name videoFile) 0 videoFile tr0 = Some (res', tr)" and
    res: "\<forall>f. res = Inr f \<longrightarrow> res' = Inr f \<and> state f \<noteq> FAILED"
    by (auto simp: awaitReady_def split: option.splits sum.splits if_splits)
  from pollFile_Some_cases[OF poll] show ?thesis
  proof (elim disjE conjE exE)
    assume "state videoFile \<noteq> PROCESSING" "res' = Inr videoFile" "tr = tr0"
    with res show ?thesis by (intro exI[of _ 0]) auto
  next
    fix k g
    assume "state videoFile = PROCESSING"
      "\<forall>i<k. \<exists>f. getFile w (0 + i) (name videoFile) = Inr f \<and> state f = PROCESSING"
      "tr = tr0 @ concat (replicate (Suc k) (pollEffects (name videoFile)))"
      "getFile w (0 + k) (name videoFile) = Inr g" "state g \<noteq> PROCESSING" "res' = Inr g"
    with res show ?thesis by (intro exI[of _ "Suc k"]) auto
  next
    fix k e
    assume "state videoFile = PROCESSING"
      "\<forall>i<k. \<exists>f. getFile w (0 + i) (name videoFile) = Inr f \<and> state f = PROCESSING"
      "tr = tr0 @ concat (replicate (Suc k) (pollEffects (name videoFile)))"
      "getFile w (0 + k) (name videoFile) = Inl e" "res' = Inl e"
    with res show ?thesis by (intro exI[of _ "Suc k"]) auto
  qed
qed

lemma awaitReady_idle:
  "state videoFile \<noteq> PROCESSING \<Longrightarrow>
   awaitReady w videoFile tr0 =
     (if state videoFile = FAILED then Some (Inl (Error ''Video processing failed.''), tr0)
      else Some (Inr videoFile, tr0))"
  by (simp add: awaitReady_def pollFile_idle)

lemma awaitReady_stops:
  assumes "state videoFile = PROCESSING"
    and "\<forall>i<k. \<exists>f. getFile w i (name videoFile) = Inr f \<and> state f = PROCESSING"
    and "getFile w k (name videoFile) = Inr g" and "state g \<noteq> PROCESSING"
  shows "awaitReady w videoFile tr0 =
     (if state g = FAILED
      then Some (Inl (Error ''Video processing failed.''),
                 tr0 @ concat (replicate (Suc k) (pollEffects (name videoFile))))
      else Some (Inr g, tr0 @ concat (replicate (Suc k) (pollEffects (name videoFile)))))"
proof -
  have "pollFile w (name videoFile) 0 videoFile tr0 =
      Some (Inr g, tr0 @ concat (replicate (Suc k) (pollEffects (name videoFile))))"
    using assms by (intro pollFile_stops) simp_all
  then show ?thesis by (simp add: awaitReady_def)
qed

lemma awaitReady_diverges:
  assumes "state videoFile = PROCESSING"
    and "\<forall>n. \<exists>f. getFile w n (name videoFile) = Inr f \<and> state f = PROCESSING"
  shows "awaitReady w videoFile tr0 = None"
proof -
  have "pollFile w (name videoFile) 0 videoFile tr0 = None"
  proof (cases "pollFile w (name videoFile) 0 videoFile tr0")
    case None
    then show ?thesis .
  next
    case (Some y)
    from pollFile_diverges[OF Some] assms show ?thesis by blast
  qed
  then show ?thesis by (simp add: awaitReady_def)
qed

lemma pollEffects_filters [simp]:
  "filter isGenerate (concat (replicate k (pollEffects nm))) = []"
  "filter isUploadFile (concat (replicate k (pollEffects nm))) = []"
  "filter isGetFile (concat (replicate k (pollEffects nm))) = replicate k (GetFile nm)"
  by (induction k) (simp_all add: pollEffects_def)

lemma generate_fst: "fst (generate w videoFile tr0) = Inr ()"
  by (simp add: generate_def Let_def split: sum.splits option.splits)



lemma generate_calls:
  "filter isGenerate (snd (generate w videoFile tr0)) =
     filter isGenerate tr0 @
     (case countTokens w (request videoFile) of
        Inl e \<Rightarrow> [CountTokens (request videoFile)]
      | Inr c \<Rightarrow> [CountTokens (request videoFile), GenerateContent (request videoFile)])"
  by (simp add: generate_def Let_def split: sum.splits option.splits)

lemma analyze_ready:
  "resolveRemoteFile w [] = (Inr videoFile, tr1) \<Longrightarrow>
   awaitReady w videoFile tr1 = Some (Inr fl, tr2) \<Longrightarrow>
   analyzeYouTubeVideo w =
     Some (generate w videoFile (tr2 @ [ConsoleLog (ReadyForInference (displayName fl) (uri fl))]))"
  by (simp add: analyzeYouTubeVideo_def pollAndGenerate_def)


section \<open>The claims\<close>

text \<open>
  C1. Whenever the listing holds an entry named \<^verbatim>\<open>files/ai-persuasion\<close>, lines 29 to 53 settle
  on a listed entry of that name (on that very entry when it is the only one of that name)
  and issue no upload call.
\<close>

theorem resolve_reuses_listed_file:
  assumes "listFiles w = Inr r"
    and "f \<in> set (listedFiles r)"
    and "name f = ''files/ai-persuasion''"
  shows "\<exists>g es. resolveRemoteFile w tr0 = (Inr g, tr0 @ es) \<and>
           g \<in> set (listedFiles r) \<and> name g = ''files/ai-persuasion'' \<and>
           filter isUploadFile es = [] \<and>
           ((\<forall>h\<in>set (listedFiles r). name h = ''files/ai-persuasion'' \<longrightarrow> h = f) \<longrightarrow> g = f)"
proof -
  let ?ms = "filter (\<lambda>f. name f = ''files/ai-persuasion'') (listedFiles r)"
  from assms(2,3) have f: "f \<in> set ?ms" by simp
  from assms(2,3) have ne: "?ms \<noteq> []" by (auto simp: filter_empty_conv)
  then have "last ?ms \<in> set ?ms" by (rule last_in_set)
  then have g: "last ?ms \<in> set (listedFiles r)" "name (last ?ms) = ''files/ai-persuasion''"
    by simp_all
  have only: "(\<forall>h\<in>set (listedFiles r). name h = ''files/ai-persuasion'' \<longrightarrow> h = f) \<longrightarrow> last ?ms = f"
    using g by blast
  from resolve_reuse[OF assms(1) ne, of tr0] g only show ?thesis
    by (intro exI[of _ "last ?ms"] exI[of _ "ListFiles # map (\<lambda>f. ConsoleLog (UsingExistingFile f)) ?ms"])
       simp
qed

theorem resolve_reuses_listed_file_witness:
  "listFiles (service [listedFile ACTIVE] thenActive noFunctions)
     = Inr (Some \<lparr>files = Some [listedFile ACTIVE]\<rparr>) \<and>
   listedFile ACTIVE \<in> set (listedFiles (Some \<lparr>files = Some [listedFile ACTIVE]\<rparr>)) \<and>
   name (listedFile ACTIVE) = ''files/ai-persuasion'' \<and>
   (\<exists>es. resolveRemoteFile (service [listedFile ACTIVE] thenActive noFunctions) []
            = (Inr (listedFile ACTIVE), es) \<and> filter isUploadFile es = [])"
proof -
  have h1: "listFiles (service [listedFile ACTIVE] thenActive noFunctions)
     = Inr (Some \<lparr>files = Some [listedFile ACTIVE]\<rparr>)"
    by (simp add: service_def)
  have h2: "listedFile ACTIVE \<in> set (listedFiles (Some \<lparr>files = Some [listedFile ACTIVE]\<rparr>))"
    by (simp add: listedFiles_def)
  have h3: "name (listedFile ACTIVE) = ''files/ai-persuasion''"
    by (simp add: listedFile_def)
  from resolve_reuses_listed_file[OF h1 h2 h3, of "[]"] h1 h2 h3 show ?thesis
    by (auto simp: listedFiles_def)
qed

text \<open>
  C2. Whenever the listing holds no entry named \<^verbatim>\<open>files/ai-persuasion\<close> (an empty or absent
  list included), lines 29 to 53 issue exactly one upload call, with MIME type
  \<^verbatim>\<open>video/mp4\<close> and display name \<^verbatim>\<open>AI Persuasion\<close>; when the upload succeeds, the file
  of its response is the one the rest of the run works on, and when it fails the
  error leaves the step.
\<close>

theorem resolve_uploads_once:
  assumes "listFiles w = Inr r"
    and "\<forall>f\<in>set (listedFiles r). name f \<noteq> ''files/ai-persuasion''"
  shows "\<exists>res es. resolveRemoteFile w tr0 = (res, tr0 @ es) \<and>
           filter isUploadFile es =
             [UploadFile ''./videos/video.mp4''
                \<lparr>md_mimeType = ''video/mp4'', md_displayName = ''AI Persuasion'',
                   md_name = ''ai-persuasion''\<rparr>] \<and>
           (\<forall>u. uploadFile w ''./videos/video.mp4'' uploadMetadata = Inr u \<longrightarrow>
                res = Inr (response_file u) \<and>
                analyzeYouTubeVideo w = pollAndGenerate w (response_file u) es) \<and>
           (\<forall>e. uploadFile w ''./videos/video.mp4'' uploadMetadata = Inl e \<longrightarrow> res = Inl e)"
proof -
  from assms(2) have none: "filter (\<lambda>f. name f = ''files/ai-persuasion'') (listedFiles r) = []"
    by (simp add: filter_empty_conv)
  note up = resolve_upload[OF assms(1) none]
  show ?thesis
  proof (cases "uploadFile w ''./videos/video.mp4'' uploadMetadata")
    case (Inl e)
    with up[of tr0] show ?thesis by (simp add: uploadMetadata_def)
  next
    case (Inr u)
    with up[of "[]"] have "analyzeYouTubeVideo w =
        pollAndGenerate w (response_file u)
          [ListFiles, ConsoleLog UploadingFile, UploadFile ''./videos/video.mp4'' uploadMetadata,
           ConsoleLog (UploadedFile (displayName (response_file u)) (uri (response_file u)))]"
      by (simp add: analyzeYouTubeVideo_def)
    with Inr up[of tr0] show ?thesis by (simp add: uploadMetadata_def)
  qed
qed

theorem resolve_uploads_once_witness:
  "listFiles (service [otherFile] thenActive noFunctions) = Inr (Some \<lparr>files = Some [otherFile]\<rparr>) \<and>
   filter (\<lambda>f. name f = ''files/ai-persuasion'')
     (listedFiles (Some \<lparr>files = Some [otherFile]\<rparr>)) = [] \<and>
   (\<exists>es. resolveRemoteFile (service [otherFile] thenActive noFunctions) []
            = (Inr (listedFile PROCESSING), es) \<and>
          length (filter isUploadFile es) = 1 \<and>
          analyzeYouTubeVideo (service [otherFile] thenActive noFunctions)
            = pollAndGenerate (service [otherFile] thenActive noFunctions) (listedFile PROCESSING) es)"
proof -
  have h1: "listFiles (service [otherFile] thenActive noFunctions)
      = Inr (Some \<lparr>files = Some [otherFile]\<rparr>)"
    by (simp add: service_def)
  have h2: "\<forall>f\<in>set (listedFiles (Some \<lparr>files = Some [otherFile]\<rparr>)). name f \<noteq> ''files/ai-persuasion''"
    by (simp add: listedFiles_def otherFile_def)
  have up: "uploadFile (service [otherFile] thenActive noFunctions) ''./videos/video.mp4'' uploadMetadata
      = Inr \<lparr>response_file = listedFile PROCESSING\<rparr>"
    by (simp add: service_def)
  have h3: "filter (\<lambda>f. name f = ''files/ai-persuasion'')
      (listedFiles (Some \<lparr>files = Some [otherFile]\<rparr>)) = []"
    by (simp add: listedFiles_def otherFile_def)
  from resolve_uploads_once[OF h1 h2, of "[]"] up h1 h3 show ?thesis
    by auto
qed

text \<open>
  C10. With several listed entries named \<^verbatim>\<open>files/ai-persuasion\<close>, lines 29 to 53 settle on the
  last of them in listing order: the scan goes through the whole list, logs every
  entry of that name and keeps the latest.
\<close>

theorem resolve_takes_last_match:
  assumes "listFiles w = Inr r"
    and "filter (\<lambda>f. name f = ''files/ai-persuasion'') (listedFiles r) \<noteq> []"
  shows "resolveRemoteFile w tr0 =
     (Inr (last (filter (\<lambda>f. name f = ''files/ai-persuasion'') (listedFiles r))),
      tr0 @ ListFiles # map (\<lambda>f. ConsoleLog (UsingExistingFile f))
                           (filter (\<lambda>f. name f = ''files/ai-persuasion'') (listedFiles r)))"
  using assms by (rule resolve_reuse)

theorem resolve_takes_last_match_witness:
  "listFiles (service [listedFile FAILED, otherFile, listedFile ACTIVE] thenActive noFunctions)
     = Inr (Some \<lparr>files = Some [listedFile FAILED, otherFile, listedFile ACTIVE]\<rparr>) \<and>
   filter (\<lambda>f. name f = ''files/ai-persuasion'')
     (listedFiles (Some \<lparr>files = Some [listedFile FAILED, otherFile, listedFile ACTIVE]\<rparr>)) \<noteq> [] \<and>
   resolveRemoteFile (service [listedFile FAILED, otherFile, listedFile ACTIVE] thenActive noFunctions) []
     = (Inr (listedFile ACTIVE),
        [ListFiles, ConsoleLog (UsingExistingFile (listedFile FAILED)),
         ConsoleLog (UsingExistingFile (listedFile ACTIVE))])"
proof -
  have h1: "listFiles (service [listedFile FAILED, otherFile, listedFile ACTIVE] thenActive noFunctions)
     = Inr (Some \<lparr>files = Some [listedFile FAILED, otherFile, listedFile ACTIVE]\<rparr>)"
    by (simp add: service_def)
  have h2: "filter (\<lambda>f. name f = ''files/ai-persuasion'')
     (listedFiles (Some \<lparr>files = Some [listedFile FAILED, otherFile, listedFile ACTIVE]\<rparr>)) \<noteq> []"
    by (simp add: listedFiles_def listedFile_def)
  from resolve_takes_last_match[OF h1 h2, of "[]"] h1 h2 show ?thesis
    by (simp add: listedFiles_def listedFile_def otherFile_def)
qed

text \<open>
  C3. Every turn of the wait loop prints a dot, waits 5000 ms and issues one fetch by the
  file's name, and nothing else; the loop goes on as long as the file last seen is in state
  \<^verbatim>\<open>PROCESSING\<close>, so the file it returns is not in that state; a file that is \<^verbatim>\<open>ACTIVE\<close>
  on entry is returned at once, with no fetch.
\<close>

theorem awaitReady_one_fetch_per_turn:
  "(\<forall>res tr. awaitReady w videoFile tr0 = Some (res, tr) \<longrightarrow>
      (\<exists>k. tr = tr0 @ concat (replicate k [StdoutWrite ''.'', Sleep 5000, GetFile (name videoFile)]) \<and>
           (k = 0 \<longleftrightarrow> state videoFile \<noteq> PROCESSING) \<and>
           (\<forall>i<k - 1. \<exists>f. getFile w i (name videoFile) = Inr f \<and> state f = PROCESSING) \<and>
           (\<forall>f. res = Inr f \<longrightarrow>
                state f \<noteq> PROCESSING \<and>
                (if k = 0 then f = videoFile else getFile w (k - 1) (name videoFile) = Inr f)))) \<and>
   (state videoFile = ACTIVE \<longrightarrow> awaitReady w videoFile tr0 = Some (Inr videoFile, tr0))"
proof (intro conjI allI impI)
  fix res tr
  assume "awaitReady w videoFile tr0 = Some (res, tr)"
  from awaitReady_Some_cases[OF this]
  show "\<exists>k. tr = tr0 @ concat (replicate k [StdoutWrite ''.'', Sleep 5000, GetFile (name videoFile)]) \<and>
           (k = 0 \<longleftrightarrow> state videoFile \<noteq> PROCESSING) \<and>
           (\<forall>i<k - 1. \<exists>f. getFile w i (name videoFile) = Inr f \<and> state f = PROCESSING) \<and>
           (\<forall>f. res = Inr f \<longrightarrow>
                state f \<noteq> PROCESSING \<and>
                (if k = 0 then f = videoFile else getFile w (k - 1) (name videoFile) = Inr f))"
    unfolding pollEffects_def by blast
next
  assume "state videoFile = ACTIVE"
  then show "awaitReady w videoFile tr0 = Some (Inr videoFile, tr0)"
    by (simp add: awaitReady_idle)
qed

theorem awaitReady_one_fetch_per_turn_witness:
  "awaitReady (service [] thenActive noFunctions) (listedFile PROCESSING) []
     = Some (Inr (listedFile ACTIVE),
             [StdoutWrite ''.'', Sleep 5000, GetFile ''files/ai-persuasion'',
              StdoutWrite ''.'', Sleep 5000, GetFile ''files/ai-persuasion'']) \<and>
   (\<exists>k. [StdoutWrite ''.'', Sleep 5000, GetFile ''files/ai-persuasion'',
          StdoutWrite ''.'', Sleep 5000, GetFile ''files/ai-persuasion'']
         = concat (replicate k [StdoutWrite ''.'', Sleep 5000, GetFile ''files/ai-persuasion'']) \<and>
        k \<noteq> 0 \<and>
        getFile (service [] thenActive noFunctions) (k - 1) ''files/ai-persuasion''
          = Inr (listedFile ACTIVE)) \<and>
   state (listedFile ACTIVE) = ACTIVE \<and>
   awaitReady (service [] thenActive noFunctions) (listedFile ACTIVE) []
     = Some (Inr (listedFile ACTIVE), [])"
proof -
  have run: "awaitReady (service [] thenActive noFunctions) (listedFile PROCESSING) []
     = Some (Inr (listedFile ACTIVE),
             [StdoutWrite ''.'', Sleep 5000, GetFile ''files/ai-persuasion'',
              StdoutWrite ''.'', Sleep 5000, GetFile ''files/ai-persuasion''])"
    by (simp add: awaitReady_def pollFile.simps service_def thenActive_def listedFile_def
        pollEffects_def)
  have nm: "name (listedFile PROCESSING) = ''files/ai-persuasion''"
    and st: "state (listedFile PROCESSING) = PROCESSING"
    and act: "state (listedFile ACTIVE) = ACTIVE"
    by (simp_all add: listedFile_def)
  from awaitReady_one_fetch_per_turn
         [of "service [] thenActive noFunctions" "listedFile PROCESSING" "[]",
          THEN conjunct1, rule_format, OF run]
  have "\<exists>k. [StdoutWrite ''.'', Sleep 5000, GetFile ''files/ai-persuasion'',
          StdoutWrite ''.'', Sleep 5000, GetFile ''files/ai-persuasion'']
         = concat (replicate k [StdoutWrite ''.'', Sleep 5000, GetFile ''files/ai-persuasion'']) \<and>
        k \<noteq> 0 \<and>
        getFile (service [] thenActive noFunctions) (k - 1) ''files/ai-persuasion''
          = Inr (listedFile ACTIVE)"
    unfolding nm st by (elim exE conjE, rule_tac x = k in exI) auto
  moreover from awaitReady_one_fetch_per_turn
         [of "service [] thenActive noFunctions" "listedFile ACTIVE" "[]",
          THEN conjunct2, rule_format, OF act]
  have "awaitReady (service [] thenActive noFunctions) (listedFile ACTIVE) []
     = Some (Inr (listedFile ACTIVE), [])" .
  ultimately show ?thesis using run act by blast
qed

text \<open>
  C4. A file that is \<^verbatim>\<open>FAILED\<close> on entry, or that a fetch reports as \<^verbatim>\<open>FAILED\<close> after
  \<open>k\<close> fetches that reported \<^verbatim>\<open>PROCESSING\<close>, makes the wait step throw
  \<^verbatim>\<open>Error("Video processing failed.")\<close> with no fetch after the one that reported the
  failure (\<open>k + 1\<close> fetches in all, 2 for processing then failed); an error leaving the wait
  step ends the whole run before any token count or generation request.
\<close>

theorem awaitReady_raises_on_failed:
  "(state videoFile = FAILED \<longrightarrow>
      awaitReady w videoFile tr0 = Some (Inl (Error ''Video processing failed.''), tr0)) \<and>
   (state videoFile = PROCESSING \<and>
    (\<forall>i<k. \<exists>f. getFile w i (name videoFile) = Inr f \<and> state f = PROCESSING) \<and>
    (\<exists>g. getFile w k (name videoFile) = Inr g \<and> state g = FAILED) \<longrightarrow>
      awaitReady w videoFile tr0 =
        Some (Inl (Error ''Video processing failed.''),
              tr0 @ concat (replicate (Suc k)
                              [StdoutWrite ''.'', Sleep 5000, GetFile (name videoFile)]))) \<and>
   (\<forall>e tr1 tr2. resolveRemoteFile w [] = (Inr videoFile, tr1) \<and>
                awaitReady w videoFile tr1 = Some (Inl e, tr2) \<longrightarrow>
      analyzeYouTubeVideo w = Some (Inl e, tr2) \<and> filter isGenerate tr2 = [])"
proof (intro conjI allI impI)
  assume "state videoFile = FAILED"
  then show "awaitReady w videoFile tr0 = Some (Inl (Error ''Video processing failed.''), tr0)"
    by (simp add: awaitReady_idle)
next
  assume a: "state videoFile = PROCESSING \<and>
    (\<forall>i<k. \<exists>f. getFile w i (name videoFile) = Inr f \<and> state f = PROCESSING) \<and>
    (\<exists>g. getFile w k (name videoFile) = Inr g \<and> state g = FAILED)"
  then obtain g where g: "getFile w k (name videoFile) = Inr g" "state g = FAILED" by blast
  from g(2) have "state g \<noteq> PROCESSING" by simp
  from awaitReady_stops[OF _ _ g(1) this, of tr0] a g(2)
  show "awaitReady w videoFile tr0 =
        Some (Inl (Error ''Video processing failed.''),
              tr0 @ concat (replicate (Suc k)
                              [StdoutWrite ''.'', Sleep 5000, GetFile (name videoFile)]))"
    by (simp add: pollEffects_def)
next
  fix e tr1 tr2
  assume a: "resolveRemoteFile w [] = (Inr videoFile, tr1) \<and>
             awaitReady w videoFile tr1 = Some (Inl e, tr2)"
  then show "analyzeYouTubeVideo w = Some (Inl e, tr2)"
    by (simp add: analyzeYouTubeVideo_def pollAndGenerate_def)
  from resolve_effects[of w "[]"] a have "filter isGenerate tr1 = []" by auto
  moreover from a awaitReady_Some_cases[of w videoFile tr1 "Inl e" tr2]
  obtain j where "tr2 = tr1 @ concat (replicate j (pollEffects (name videoFile)))" by blast
  ultimately show "filter isGenerate tr2 = []" by simp
qed

theorem awaitReady_raises_on_failed_witness:
  "awaitReady (service [] thenFailed noFunctions) (listedFile FAILED) []
     = Some (Inl (Error ''Video processing failed.''), []) \<and>
   awaitReady (service [] thenFailed noFunctions) (listedFile PROCESSING) []
     = Some (Inl (Error ''Video processing failed.''),
             [StdoutWrite ''.'', Sleep 5000, GetFile ''files/ai-persuasion'',
              StdoutWrite ''.'', Sleep 5000, GetFile ''files/ai-persuasion'']) \<and>
   (\<exists>tr. analyzeYouTubeVideo (service [] thenFailed noFunctions)
            = Some (Inl (Error ''Video processing failed.''), tr) \<and>
         length (filter isGetFile tr) = 2 \<and> filter isGenerate tr = [])"
proof -
  let ?w = "service [] thenFailed noFunctions"
  let ?up = "[ListFiles, ConsoleLog UploadingFile, UploadFile ''./videos/video.mp4'' uploadMetadata,
              ConsoleLog (UploadedFile ''AI Persuasion'' ''https://example.test/files/ai-persuasion'')]"
  have nm: "name (listedFile PROCESSING) = ''files/ai-persuasion''"
    by (simp add: listedFile_def)
  have h0: "state (listedFile FAILED) = FAILED" by (simp add: listedFile_def)
  have h1: "state (listedFile PROCESSING) = PROCESSING \<and>
    (\<forall>i<1. \<exists>f. getFile ?w i (name (listedFile PROCESSING)) = Inr f \<and> state f = PROCESSING) \<and>
    (\<exists>g. getFile ?w 1 (name (listedFile PROCESSING)) = Inr g \<and> state g = FAILED)"
    by (simp add: service_def thenFailed_def listedFile_def)
  have r: "resolveRemoteFile ?w [] = (Inr (listedFile PROCESSING), ?up)"
    by (simp add: resolveRemoteFile_def service_def listedFiles_def listedFile_def)
  note inst = awaitReady_raises_on_failed[of _ ?w _ 1]
  from inst[of "listedFile FAILED" "[]", THEN conjunct1, rule_format, OF h0]
  have a: "awaitReady ?w (listedFile FAILED) [] = Some (Inl (Error ''Video processing failed.''), [])" .
  from inst[of "listedFile PROCESSING" "[]", THEN conjunct2, THEN conjunct1, rule_format, OF h1]
  have b: "awaitReady ?w (listedFile PROCESSING) []
     = Some (Inl (Error ''Video processing failed.''),
             [StdoutWrite ''.'', Sleep 5000, GetFile ''files/ai-persuasion'',
              StdoutWrite ''.'', Sleep 5000, GetFile ''files/ai-persuasion''])"
    by (simp add: nm)
  from inst[of "listedFile PROCESSING" ?up, THEN conjunct2, THEN conjunct1, rule_format, OF h1]
  have c: "awaitReady ?w (listedFile PROCESSING) ?up
     = Some (Inl (Error ''Video processing failed.''),
             ?up @ [StdoutWrite ''.'', Sleep 5000, GetFile ''files/ai-persuasion'',
                    StdoutWrite ''.'', Sleep 5000, GetFile ''files/ai-persuasion''])"
    by (simp add: nm)
  from inst[of "listedFile PROCESSING" "[]", THEN conjunct2, THEN conjunct2, rule_format, OF conjI, OF r c]
  have "analyzeYouTubeVideo ?w
     = Some (Inl (Error ''Video processing failed.''),
             ?up @ [StdoutWrite ''.'', Sleep 5000, GetFile ''files/ai-persuasion'',
                    StdoutWrite ''.'', Sleep 5000, GetFile ''files/ai-persuasion'']) \<and>
     filter isGenerate (?up @ [StdoutWrite ''.'', Sleep 5000, GetFile ''files/ai-persuasion'',
                    StdoutWrite ''.'', Sleep 5000, GetFile ''files/ai-persuasion'']) = []" .
  then have "\<exists>tr. analyzeYouTubeVideo ?w = Some (Inl (Error ''Video processing failed.''), tr) \<and>
         length (filter isGetFile tr) = 2 \<and> filter isGenerate tr = []"
    by simp
  with a b show ?thesis by blast
qed

text \<open>
  C9. The wait loop has no bound on its turns: against a service that answers every fetch
  with a file in state \<^verbatim>\<open>PROCESSING\<close> it never ends, and neither does the run; against
  a service that does so \<open>k\<close> times before another state shows, it makes \<open>k + 1\<close> fetches,
  whatever \<open>k\<close> is.
\<close>

theorem awaitReady_never_returns:
  "(state videoFile = PROCESSING \<and>
    (\<forall>n. \<exists>f. getFile w n (name videoFile) = Inr f \<and> state f = PROCESSING) \<longrightarrow>
      awaitReady w videoFile tr0 = None \<and>
      (\<forall>tr1. resolveRemoteFile w [] = (Inr videoFile, tr1) \<longrightarrow> analyzeYouTubeVideo w = None)) \<and>
   (\<forall>k g. state videoFile = PROCESSING \<and>
      (\<forall>i<k. \<exists>f. getFile w i (name videoFile) = Inr f \<and> state f = PROCESSING) \<and>
      getFile w k (name videoFile) = Inr g \<and> state g \<noteq> PROCESSING \<longrightarrow>
      (\<exists>res. awaitReady w videoFile tr0 =
         Some (res, tr0 @ concat (replicate (Suc k)
                                    [StdoutWrite ''.'', Sleep 5000, GetFile (name videoFile)]))))"
proof (intro conjI allI impI)
  assume a: "state videoFile = PROCESSING \<and>
    (\<forall>n. \<exists>f. getFile w n (name videoFile) = Inr f \<and> state f = PROCESSING)"
  then show "awaitReady w videoFile tr0 = None" by (simp add: awaitReady_diverges)
  fix tr1
  assume "resolveRemoteFile w [] = (Inr videoFile, tr1)"
  moreover from a have "awaitReady w videoFile tr1 = None" by (simp add: awaitReady_diverges)
  ultimately show "analyzeYouTubeVideo w = None"
    by (simp add: analyzeYouTubeVideo_def pollAndGenerate_def)
next
  fix k g
  assume "state videoFile = PROCESSING \<and>
      (\<forall>i<k. \<exists>f. getFile w i (name videoFile) = Inr f \<and> state f = PROCESSING) \<and>
      getFile w k (name videoFile) = Inr g \<and> state g \<noteq> PROCESSING"
  then have "awaitReady w videoFile tr0 =
     (if state g = FAILED
      then Some (Inl (Error ''Video processing failed.''),
                 tr0 @ concat (replicate (Suc k) (pollEffects (name videoFile))))
      else Some (Inr g, tr0 @ concat (replicate (Suc k) (pollEffects (name videoFile)))))"
    by (intro awaitReady_stops) simp_all
  then show "\<exists>res. awaitReady w videoFile tr0 =
         Some (res, tr0 @ concat (replicate (Suc k)
                                    [StdoutWrite ''.'', Sleep 5000, GetFile (name videoFile)]))"
    by (simp add: pollEffects_def)
qed

theorem awaitReady_never_returns_witness:
  "awaitReady (service [] stillProcessing noFunctions) (listedFile PROCESSING) [] = None \<and>
   analyzeYouTubeVideo (service [] stillProcessing noFunctions) = None \<and>
   (\<exists>res. awaitReady (service [] thenActive noFunctions) (listedFile PROCESSING) [] =
      Some (res, [StdoutWrite ''.'', Sleep 5000, GetFile ''files/ai-persuasion'',
                  StdoutWrite ''.'', Sleep 5000, GetFile ''files/ai-persuasion'']))"
proof -
  let ?w = "service [] stillProcessing noFunctions"
  let ?v = "service [] thenActive noFunctions"
  let ?up = "[ListFiles, ConsoleLog UploadingFile, UploadFile ''./videos/video.mp4'' uploadMetadata,
              ConsoleLog (UploadedFile ''AI Persuasion'' ''https://example.test/files/ai-persuasion'')]"
  have nm: "name (listedFile PROCESSING) = ''files/ai-persuasion''"
    by (simp add: listedFile_def)
  have h: "state (listedFile PROCESSING) = PROCESSING \<and>
    (\<forall>n. \<exists>f. getFile ?w n (name (listedFile PROCESSING)) = Inr f \<and> state f = PROCESSING)"
    by (simp add: service_def stillProcessing_def listedFile_def)
  have r: "resolveRemoteFile ?w [] = (Inr (listedFile PROCESSING), ?up)"
    by (simp add: resolveRemoteFile_def service_def listedFiles_def listedFile_def)
  have h2: "state (listedFile PROCESSING) = PROCESSING \<and>
      (\<forall>i<1. \<exists>f. getFile ?v i (name (listedFile PROCESSING)) = Inr f \<and> state f = PROCESSING) \<and>
      getFile ?v 1 (name (listedFile PROCESSING)) = Inr (listedFile ACTIVE) \<and>
      state (listedFile ACTIVE) \<noteq> PROCESSING"
    by (simp add: service_def thenActive_def listedFile_def)
  from awaitReady_never_returns[of "listedFile PROCESSING" ?w "[]", THEN conjunct1, rule_format, OF h]
  have a: "awaitReady ?w (listedFile PROCESSING) [] = None"
    and b: "\<forall>tr1. resolveRemoteFile ?w [] = (Inr (listedFile PROCESSING), tr1) \<longrightarrow>
                analyzeYouTubeVideo ?w = None"
    by blast+
  from b r have c: "analyzeYouTubeVideo ?w = None" by blast
  from awaitReady_never_returns[of "listedFile PROCESSING" ?v "[]", THEN conjunct2, rule_format, OF h2]
  have "\<exists>res. awaitReady ?v (listedFile PROCESSING) [] =
      Some (res, [StdoutWrite ''.'', Sleep 5000, GetFile ''files/ai-persuasion'',
                  StdoutWrite ''.'', Sleep 5000, GetFile ''files/ai-persuasion''])"
    by (simp add: nm)
  with a c show ?thesis by blast
qed

text \<open>
  C6. The request built for a file carries that file's MIME type and URI, unchanged, in the
  file-data part of its single user turn; the generate step sends that request to
  \<^verbatim>\<open>countTokens\<close> first and to \<^verbatim>\<open>generateContent\<close> after it (not at all when the count
  fails), and makes no other call; in a run, the file it is given is the one lines 29 to 53
  settled on.
\<close>

theorem generate_embeds_file_and_counts_first:
  "contents (request videoFile) =
     [Content ''user''
        [FileDataPart (mimeType videoFile) (uri videoFile),
         TextPart ''Make a YouTube title, description, chapters, tags, and a 1000 word blog post in markdown format best for this video including images from the video.'']] \<and>
   filter isGenerate (snd (generate w videoFile tr0)) =
     filter isGenerate tr0 @
     (case countTokens w (request videoFile) of
        Inl e \<Rightarrow> [CountTokens (request videoFile)]
      | Inr c \<Rightarrow> [CountTokens (request videoFile), GenerateContent (request videoFile)]) \<and>
   (\<forall>tr1 fl tr2. resolveRemoteFile w [] = (Inr videoFile, tr1) \<and>
                 awaitReady w videoFile tr1 = Some (Inr fl, tr2) \<longrightarrow>
      analyzeYouTubeVideo w =
        Some (generate w videoFile
                (tr2 @ [ConsoleLog (ReadyForInference (displayName fl) (uri fl))])))"
proof (intro conjI allI impI)
  show "contents (request videoFile) =
     [Content ''user''
        [FileDataPart (mimeType videoFile) (uri videoFile),
         TextPart ''Make a YouTube title, description, chapters, tags, and a 1000 word blog post in markdown format best for this video including images from the video.'']]"
    by (simp add: request_def)
  show "filter isGenerate (snd (generate w videoFile tr0)) =
     filter isGenerate tr0 @
     (case countTokens w (request videoFile) of
        Inl e \<Rightarrow> [CountTokens (request videoFile)]
      | Inr c \<Rightarrow> [CountTokens (request videoFile), GenerateContent (request videoFile)])"
    by (rule generate_calls)
  fix tr1 fl tr2
  assume "resolveRemoteFile w [] = (Inr videoFile, tr1) \<and>
          awaitReady w videoFile tr1 = Some (Inr fl, tr2)"
  then show "analyzeYouTubeVideo w =
        Some (generate w videoFile
                (tr2 @ [ConsoleLog (ReadyForInference (displayName fl) (uri fl))]))"
    by (simp add: analyze_ready)
qed

theorem generate_embeds_file_and_counts_first_witness:
  "contents (request (listedFile ACTIVE)) =
     [Content ''user''
        [FileDataPart ''video/mp4'' ''https://example.test/files/ai-persuasion'',
         TextPart ''Make a YouTube title, description, chapters, tags, and a 1000 word blog post in markdown format best for this video including images from the video.'']] \<and>
   filter isGenerate (snd (generate (service [listedFile ACTIVE] thenActive noFunctions) (listedFile ACTIVE) []))
     = [CountTokens (request (listedFile ACTIVE)), GenerateContent (request (listedFile ACTIVE))] \<and>
   analyzeYouTubeVideo (service [listedFile ACTIVE] thenActive noFunctions) =
     Some (generate (service [listedFile ACTIVE] thenActive noFunctions) (listedFile ACTIVE)
             [ListFiles, ConsoleLog (UsingExistingFile (listedFile ACTIVE)),
              ConsoleLog (ReadyForInference ''AI Persuasion'' ''https://example.test/files/ai-persuasion'')])"
proof -
  let ?w = "service [listedFile ACTIVE] thenActive noFunctions"
  let ?tr = "[ListFiles, ConsoleLog (UsingExistingFile (listedFile ACTIVE))]"
  have fields: "mimeType (listedFile ACTIVE) = ''video/mp4''"
    "uri (listedFile ACTIVE) = ''https://example.test/files/ai-persuasion''"
    "displayName (listedFile ACTIVE) = ''AI Persuasion''"
    by (simp_all add: listedFile_def)
  have ct: "countTokens ?w (request (listedFile ACTIVE)) = Inr \<lparr>totalTokens = 7\<rparr>"
    by (simp add: service_def)
  have r: "resolveRemoteFile ?w [] = (Inr (listedFile ACTIVE), ?tr)"
    by (simp add: resolveRemoteFile_def service_def listedFiles_def listedFile_def)
  have a: "awaitReady ?w (listedFile ACTIVE) ?tr = Some (Inr (listedFile ACTIVE), ?tr)"
    by (simp add: awaitReady_def pollFile.simps listedFile_def)
  note inst = generate_embeds_file_and_counts_first[of "listedFile ACTIVE" ?w "[]"]
  from inst[THEN conjunct1] inst[THEN conjunct2, THEN conjunct1]
    inst[THEN conjunct2, THEN conjunct2, rule_format, OF conjI, OF r a]
  show ?thesis by (simp add: fields ct)
qed

text \<open>
  C7. When the count and the generation call succeed and the response's
  \<^verbatim>\<open>functionCalls()\<close> yields no function calls (\<^verbatim>\<open>undefined\<close>), the generate step logs
  \<^verbatim>\<open>No functions called\<close> as its last effect and returns without a value and without throwing.
\<close>

theorem generate_reports_no_functions:
  assumes "countTokens w (request videoFile) = Inr c"
    and "generateContent w (request videoFile) = Inr result"
    and "functionCalls result = Inr None"
  shows "generate w videoFile tr0 =
     (Inr (),
      tr0 @ [CountTokens (request videoFile), ConsoleLog (TokenCount (totalTokens c)),
             GenerateContent (request videoFile), ConsoleLog NoFunctionsCalled])"
  using assms by (simp add: generate_def)

theorem generate_reports_no_functions_witness:
  "countTokens (service [] thenActive noFunctions) (request (listedFile ACTIVE))
     = Inr \<lparr>totalTokens = 7\<rparr> \<and>
   generateContent (service [] thenActive noFunctions) (request (listedFile ACTIVE))
     = Inr \<lparr>functionCalls = Inr None\<rparr> \<and>
   generate (service [] thenActive noFunctions) (listedFile ACTIVE) [] =
     (Inr (),
      [CountTokens (request (listedFile ACTIVE)), ConsoleLog (TokenCount 7),
       GenerateContent (request (listedFile ACTIVE)), ConsoleLog NoFunctionsCalled])"
proof -
  let ?w = "service [] thenActive noFunctions"
  have h1: "countTokens ?w (request (listedFile ACTIVE)) = Inr \<lparr>totalTokens = 7\<rparr>"
    by (simp add: service_def)
  have h2: "generateContent ?w (request (listedFile ACTIVE)) = Inr \<lparr>functionCalls = Inr None\<rparr>"
    by (simp add: service_def noFunctions_def)
  have h3: "functionCalls \<lparr>functionCalls = Inr None\<rparr> = Inr None" by simp
  from generate_reports_no_functions[OF h1 h2 h3, of "[]"] h1 h2 show ?thesis by simp
qed

text \<open>
  C8. An error thrown by \<^verbatim>\<open>countTokens\<close>, by \<^verbatim>\<open>generateContent\<close> or by reading the
  response is caught inside the generate step and written to the error stream as the step's
  last effect; the step returns normally in every case, so a run that reaches it
  resolves.
\<close>

theorem generate_swallows_errors:
  "(\<forall>e. countTokens w (request videoFile) = Inl e \<longrightarrow>
      generate w videoFile tr0 =
        (Inr (), tr0 @ [CountTokens (request videoFile), ConsoleError e])) \<and>
   (\<forall>e c. countTokens w (request videoFile) = Inr c \<and>
          generateContent w (request videoFile) = Inl e \<longrightarrow>
      generate w videoFile tr0 =
        (Inr (), tr0 @ [CountTokens (request videoFile), ConsoleLog (TokenCount (totalTokens c)),
                        GenerateContent (request videoFile), ConsoleError e])) \<and>
   (\<forall>e c result. countTokens w (request videoFile) = Inr c \<and>
          generateContent w (request videoFile) = Inr result \<and>
          functionCalls result = Inl e \<longrightarrow>
      generate w videoFile tr0 =
        (Inr (), tr0 @ [CountTokens (request videoFile), ConsoleLog (TokenCount (totalTokens c)),
                        GenerateContent (request videoFile), ConsoleError e])) \<and>
   fst (generate w videoFile tr0) = Inr () \<and>
   (\<forall>tr1 fl tr2. resolveRemoteFile w [] = (Inr videoFile, tr1) \<and>
                 awaitReady w videoFile tr1 = Some (Inr fl, tr2) \<longrightarrow>
      (\<exists>tr. analyzeYouTubeVideo w = Some (Inr (), tr)))"
proof (intro conjI allI impI)
  fix e
  assume "countTokens w (request videoFile) = Inl e"
  then show "generate w videoFile tr0 =
        (Inr (), tr0 @ [CountTokens (request videoFile), ConsoleError e])"
    by (simp add: generate_def)
next
  fix e c
  assume "countTokens w (request videoFile) = Inr c \<and>
          generateContent w (request videoFile) = Inl e"
  then show "generate w videoFile tr0 =
        (Inr (), tr0 @ [CountTokens (request videoFile), ConsoleLog (TokenCount (totalTokens c)),
                        GenerateContent (request videoFile), ConsoleError e])"
    by (simp add: generate_def)
next
  fix e c result
  assume "countTokens w (request videoFile) = Inr c \<and>
          generateContent w (request videoFile) = Inr result \<and>
          functionCalls result = Inl e"
  then show "generate w videoFile tr0 =
        (Inr (), tr0 @ [CountTokens (request videoFile), ConsoleLog (TokenCount (totalTokens c)),
                        GenerateContent (request videoFile), ConsoleError e])"
    by (simp add: generate_def)
next
  show "fst (generate w videoFile tr0) = Inr ()" by (rule generate_fst)
next
  fix tr1 fl tr2
  assume "resolveRemoteFile w [] = (Inr videoFile, tr1) \<and>
          awaitReady w videoFile tr1 = Some (Inr fl, tr2)"
  then have "analyzeYouTubeVideo w =
     Some (generate w videoFile (tr2 @ [ConsoleLog (ReadyForInference (displayName fl) (uri fl))]))"
    by (simp add: analyze_ready)
  then show "\<exists>tr. analyzeYouTubeVideo w = Some (Inr (), tr)"
    by (metis generate_fst prod.collapse)
qed


theorem generate_swallows_errors_witness:
  "generate ((service [] thenActive noFunctions)\<lparr>countTokens := \<lambda>r. Inl (SdkError ''quota exceeded'')\<rparr>)
       (listedFile ACTIVE) []
     = (Inr (), [CountTokens (request (listedFile ACTIVE)),
                 ConsoleError (SdkError ''quota exceeded'')]) \<and>
   generate (service [] thenActive (Inl (SdkError ''fetch failed''))) (listedFile ACTIVE) []
     = (Inr (), [CountTokens (request (listedFile ACTIVE)), ConsoleLog (TokenCount 7),
                 GenerateContent (request (listedFile ACTIVE)),
                 ConsoleError (SdkError ''fetch failed'')]) \<and>
   generate (service [] thenActive (Inr \<lparr>functionCalls = Inl (SdkError ''blocked'')\<rparr>))
       (listedFile ACTIVE) []
     = (Inr (), [CountTokens (request (listedFile ACTIVE)), ConsoleLog (TokenCount 7),
                 GenerateContent (request (listedFile ACTIVE)),
                 ConsoleError (SdkError ''blocked'')]) \<and>
   (\<exists>tr. analyzeYouTubeVideo (service [listedFile ACTIVE] thenActive (Inl (SdkError ''fetch failed'')))
           = Some (Inr (), tr))"
proof -
  let ?w1 = "(service [] thenActive noFunctions)\<lparr>countTokens := \<lambda>r. Inl (SdkError ''quota exceeded'')\<rparr>"
  let ?w2 = "service [] thenActive (Inl (SdkError ''fetch failed''))"
  let ?w3 = "service [] thenActive (Inr \<lparr>functionCalls = Inl (SdkError ''blocked'')\<rparr>)"
  let ?w4 = "service [listedFile ACTIVE] thenActive (Inl (SdkError ''fetch failed''))"
  let ?tr = "[ListFiles, ConsoleLog (UsingExistingFile (listedFile ACTIVE))]"
  have h1: "countTokens ?w1 (request (listedFile ACTIVE)) = Inl (SdkError ''quota exceeded'')"
    by simp
  have h2: "countTokens ?w2 (request (listedFile ACTIVE)) = Inr \<lparr>totalTokens = 7\<rparr> \<and>
            generateContent ?w2 (request (listedFile ACTIVE)) = Inl (SdkError ''fetch failed'')"
    by (simp add: service_def)
  have h3: "countTokens ?w3 (request (listedFile ACTIVE)) = Inr \<lparr>totalTokens = 7\<rparr> \<and>
            generateContent ?w3 (request (listedFile ACTIVE))
              = Inr \<lparr>functionCalls = Inl (SdkError ''blocked'')\<rparr> \<and>
            functionCalls \<lparr>functionCalls = Inl (SdkError ''blocked'')\<rparr> = Inl (SdkError ''blocked'')"
    by (simp add: service_def)
  have r: "resolveRemoteFile ?w4 [] = (Inr (listedFile ACTIVE), ?tr)"
    by (simp add: resolveRemoteFile_def service_def listedFiles_def listedFile_def)
  have a: "awaitReady ?w4 (listedFile ACTIVE) ?tr = Some (Inr (listedFile ACTIVE), ?tr)"
    by (simp add: awaitReady_def pollFile.simps listedFile_def)
  from generate_swallows_errors[of ?w1 "listedFile ACTIVE" "[]", THEN conjunct1, rule_format, OF h1]
    generate_swallows_errors[of ?w2 "listedFile ACTIVE" "[]",
      THEN conjunct2, THEN conjunct1, rule_format, OF h2]
    generate_swallows_errors[of ?w3 "listedFile ACTIVE" "[]",
      THEN conjunct2, THEN conjunct2, THEN conjunct1, rule_format, OF h3]
    generate_swallows_errors[of ?w4 "listedFile ACTIVE" "[]",
      THEN conjunct2, THEN conjunct2, THEN conjunct2, THEN conjunct2, rule_format, OF conjI, OF r a]
  show ?thesis by simp
qed





end
